theory Spec2Isabelle
  imports Complex_Main "HOL-Library.Monad_Syntax"
begin

section \<open>JavaScript values\<close>

text \<open>
  The gateway works on untyped JSON: request bodies decoded by the HTTP framework and
  upstream responses decoded by \<^verbatim>\<open>JSON.parse\<close>. A JSON value is modelled as such,
  an object as the list of its properties.  Numbers are exact rationals (the rounding
  of IEEE doubles is not modelled), strings are lists of characters below 256.  The
  JavaScript value \<^verbatim>\<open>undefined\<close> is \<open>None\<close> of \<open>jsval\<close>.
\<close>

datatype json =
    JNull
  | JBool bool
  | JNum rat
  | JStr string
  | JArr "json list"
  | JObj "(string \<times> json) list"

type_synonym jsval = "json option"

text \<open>Truthiness, as tested by \<^verbatim>\<open>if (x)\<close>, \<^verbatim>\<open>x && y\<close>, \<^verbatim>\<open>x || y\<close> and \<^verbatim>\<open>x ? a : b\<close>.\<close>

fun truthy :: "json \<Rightarrow> bool" where
  "truthy JNull = False"
| "truthy (JBool b) = b"
| "truthy (JNum n) = (n \<noteq> 0)"
| "truthy (JStr s) = (s \<noteq> [])"
| "truthy (JArr xs) = True"
| "truthy (JObj kvs) = True"

fun truthyv :: "jsval \<Rightarrow> bool" where
  "truthyv None = False"
| "truthyv (Some v) = truthy v"

text \<open>
  Property access \<^verbatim>\<open>v.k\<close>.  The outer \<open>option\<close> is the exception: reading a property
  of \<^verbatim>\<open>null\<close> or \<^verbatim>\<open>undefined\<close> throws a TypeError (\<open>None\<close>).  Of the built-in
  properties of arrays and strings, the ones the program reads are modelled: the length
  and the element at index 0.  Numbers and booleans have none of the properties read.
\<close>

fun get :: "json \<Rightarrow> string \<Rightarrow> jsval option" where
  "get JNull k = None"
| "get (JObj kvs) k = Some (map_of kvs k)"
| "get (JArr xs) k =
     (if k = ''length'' then Some (Some (JNum (of_nat (length xs))))
      else if k = ''0'' then Some (case xs of [] \<Rightarrow> None | x # _ \<Rightarrow> Some x)
      else Some None)"
| "get (JStr s) k =
     (if k = ''length'' then Some (Some (JNum (of_nat (length s))))
      else if k = ''0'' then Some (case s of [] \<Rightarrow> None | c # _ \<Rightarrow> Some (JStr [c]))
      else Some None)"
| "get (JNum n) k = Some None"
| "get (JBool b) k = Some None"

fun getv :: "jsval \<Rightarrow> string \<Rightarrow> jsval option" where
  "getv None k = None"
| "getv (Some v) k = get v k"

text \<open>Optional chaining \<^verbatim>\<open>v?.k\<close>: \<^verbatim>\<open>undefined\<close> when \<open>v\<close> is null or undefined.\<close>

fun get_opt :: "jsval \<Rightarrow> string \<Rightarrow> jsval" where
  "get_opt None k = None"
| "get_opt (Some JNull) k = None"
| "get_opt (Some v) k = (case get v k of None \<Rightarrow> None | Some r \<Rightarrow> r)"

text \<open>\<^verbatim>\<open>x || d\<close> with a default \<open>d\<close>, and \<^verbatim>\<open>x || undefined\<close>.\<close>

definition or_default :: "jsval \<Rightarrow> json \<Rightarrow> json" where
  "or_default x d = (case x of None \<Rightarrow> d | Some v \<Rightarrow> if truthy v then v else d)"

definition or_undefined :: "jsval \<Rightarrow> jsval" where
  "or_undefined x = (if truthyv x then x else None)"

subsection \<open>Built-ins of the runtime\<close>

text \<open>
  The library functions the program calls are parameters of the model, collected in one
  record, so that every theorem below holds for whatever they compute:
  \<^item> \<open>JSON_parse\<close> is \<^verbatim>\<open>JSON.parse\<close>, \<open>None\<close> when it throws a SyntaxError;
  \<^item> \<open>date_iso v\<close> is \<^verbatim>\<open>new Date(v * 1000).toISOString()\<close>, \<open>None\<close> when
    it throws a RangeError (an invalid date);
  \<^item> \<open>now_iso\<close> is \<^verbatim>\<open>new Date().toISOString()\<close>;
  \<^item> \<open>to_number\<close> is the numeric coercion of a string, an array or an object
    (\<open>None\<close> is NaN) and \<open>to_string\<close> the string coercion of a value;
  \<^item> \<open>type_error_message\<close> is the message text of a TypeError, and
    \<open>headers_sent_message\<close> the one of the error thrown by setting a header of a
    response whose head is written;
  \<^item> \<open>res_has_flush\<close> tells whether the response object has a method
    \<^verbatim>\<open>flush\<close>.  A compression middleware defines one; the program installs none,
    and calling a method that is not there throws a TypeError.
\<close>

record runtime =
  JSON_parse :: "string \<Rightarrow> json option"
  date_iso :: "jsval \<Rightarrow> string option"
  now_iso :: string
  to_number :: "json \<Rightarrow> rat option"
  to_string :: "json \<Rightarrow> string"
  type_error_message :: string
  headers_sent_message :: string
  res_has_flush :: bool

text \<open>The numeric value of \<^verbatim>\<open>null\<close>, of a boolean and of a number.\<close>

fun primitive_number :: "json \<Rightarrow> rat option" where
  "primitive_number JNull = Some 0"
| "primitive_number (JBool b) = Some (if b then 1 else 0)"
| "primitive_number (JNum n) = Some n"
| "primitive_number v = None"

text \<open>The numeric value of an operand of \<^verbatim>\<open>-\<close> and \<^verbatim>\<open>>\<close>.\<close>

definition number_of :: "runtime \<Rightarrow> json \<Rightarrow> rat option" where
  "number_of rt v = (case primitive_number v of Some n \<Rightarrow> Some n | None \<Rightarrow> to_number rt v)"

text \<open>
  \<^verbatim>\<open>a + b\<close>: addition of numbers, concatenation as soon as one operand is a
  string, an array or an object.
\<close>

definition js_plus :: "runtime \<Rightarrow> json \<Rightarrow> json \<Rightarrow> json" where
  "js_plus rt a b =
     (case (primitive_number a, primitive_number b) of
        (Some x, Some y) \<Rightarrow> JNum (x + y)
      | _ \<Rightarrow> JStr (to_string rt a @ to_string rt b))"

text \<open>\<^verbatim>\<open>a - 1\<close>; a NaN result is \<open>JNull\<close>, which is how it is serialised.\<close>

definition js_minus_one :: "runtime \<Rightarrow> json \<Rightarrow> json" where
  "js_minus_one rt a = (case number_of rt a of None \<Rightarrow> JNull | Some n \<Rightarrow> JNum (n - 1))"

text \<open>\<^verbatim>\<open>v > 0\<close>, false on \<^verbatim>\<open>undefined\<close> and on NaN.\<close>

definition js_positive :: "runtime \<Rightarrow> jsval \<Rightarrow> bool" where
  "js_positive rt v =
     (case v of None \<Rightarrow> False
      | Some a \<Rightarrow> (case number_of rt a of None \<Rightarrow> False | Some n \<Rightarrow> 0 < n))"

section \<open>Strings\<close>

text \<open>\<^verbatim>\<open>s.startsWith(p)\<close>, \<^verbatim>\<open>s.includes(p)\<close>, \<^verbatim>\<open>s.split('\n')\<close> and \<^verbatim>\<open>s.trim()\<close>.\<close>

definition starts_with :: "string \<Rightarrow> string \<Rightarrow> bool" where
  "starts_with p s = (take (length p) s = p)"

fun "includes" :: "string \<Rightarrow> string \<Rightarrow> bool" where
  "includes [] p = (p = [])"
| "includes (c # cs) p = (starts_with p (c # cs) \<or> includes cs p)"

definition newline :: char where
  "newline = CHR 0x0A"

fun split_nl :: "string \<Rightarrow> string list" where
  "split_nl [] = [[]]"
| "split_nl (c # cs) =
     (if c = newline then [] # split_nl cs
      else (case split_nl cs of [] \<Rightarrow> [[c]] | l # ls \<Rightarrow> (c # l) # ls))"

text \<open>
  The white space among the characters below 256: tab, line feed, vertical tab, form
  feed, carriage return, space and no-break space.
\<close>

definition is_space :: "char \<Rightarrow> bool" where
  "is_space c = (c = CHR 0x09 \<or> c = CHR 0x0A \<or> c = CHR 0x0B \<or> c = CHR 0x0C \<or> c = CHR 0x0D
     \<or> c = CHR 0x20 \<or> c = CHR 0xA0)"

definition trim :: "string \<Rightarrow> string" where
  "trim s = rev (dropWhile is_space (rev (dropWhile is_space s)))"

section \<open>Translating a request\<close>

record 'v message =
  role :: 'v
  content :: 'v

record openai_request =
  model :: json
  messages :: "json message list"
  stream :: json
  temperature :: jsval
  max_tokens :: jsval
  top_p :: jsval
  frequency_penalty :: jsval
  presence_penalty :: jsval
  tools :: jsval
  tool_choice :: jsval
  response_format :: jsval

subsection \<open>The messages array\<close>

text \<open>
  The loop over \<^verbatim>\<open>request.messages\<close>: an entry is kept when its \<^verbatim>\<open>role\<close> and
  its \<^verbatim>\<open>content\<close> are both truthy, and its two fields are copied.  Reading a
  property of a \<^verbatim>\<open>null\<close> entry throws.
\<close>

fun array_messages :: "json list \<Rightarrow> json message list option" where
  "array_messages [] = Some []"
| "array_messages (item # items) =
     do {
       r \<leftarrow> get item ''role'';
       c \<leftarrow> get item ''content'';
       rest \<leftarrow> array_messages items;
       Some (case (r, c) of
               (Some rv, Some cv) \<Rightarrow>
                 if truthy rv \<and> truthy cv then \<lparr>role = rv, content = cv\<rparr> # rest else rest
             | _ \<Rightarrow> rest)
     }"

subsection \<open>The system field\<close>

definition system_messages :: "jsval \<Rightarrow> json message list" where
  "system_messages system =
     (case system of
        Some v \<Rightarrow> if truthy v then [\<lparr>role = JStr ''system'', content = v\<rparr>] else []
      | None \<Rightarrow> [])"

subsection \<open>The prompt and its tags\<close>

text \<open>
  The state of the loop over the lines of the prompt: the messages pushed so far,
  \<^verbatim>\<open>currentRole\<close> (\<open>None\<close> is \<^verbatim>\<open>null\<close>) and \<^verbatim>\<open>currentContent\<close>.
\<close>

type_synonym tag_state = "json message list \<times> string option \<times> string"

text \<open>\<^verbatim>\<open>if (currentRole && currentContent) messages.push(...)\<close>\<close>

definition push_span :: "json message list \<Rightarrow> string option \<Rightarrow> string \<Rightarrow> json message list" where
  "push_span msgs currentRole currentContent =
     (case currentRole of
        Some r \<Rightarrow>
          if r \<noteq> [] \<and> currentContent \<noteq> []
          then msgs @ [\<lparr>role = JStr r, content = JStr (trim currentContent)\<rparr>] else msgs
      | None \<Rightarrow> msgs)"

definition role_value :: "string option \<Rightarrow> json" where
  "role_value currentRole = (case currentRole of None \<Rightarrow> JNull | Some r \<Rightarrow> JStr r)"

fun tag_line :: "tag_state \<Rightarrow> string \<Rightarrow> tag_state" where
  "tag_line (msgs, currentRole, currentContent) line =
     (if starts_with ''<user>'' line then
        (push_span msgs currentRole currentContent, Some ''user'', drop 6 line)
      else if starts_with ''<assistant>'' line then
        (push_span msgs currentRole currentContent, Some ''assistant'', drop 11 line)
      else if line = ''</user>'' \<or> line = ''</assistant>'' then
        (if currentContent \<noteq> []
         then (msgs @ [\<lparr>role = role_value currentRole, content = JStr (trim currentContent)\<rparr>],
               currentRole, [])
         else (msgs, currentRole, currentContent))
      else if currentContent \<noteq> [] then
        (msgs, currentRole, currentContent @ newline # line)
      else (msgs, currentRole, currentContent))"

definition parse_prompt_tags :: "string \<Rightarrow> json message list" where
  "parse_prompt_tags prompt =
     (case foldl tag_line ([], None, []) (split_nl prompt) of
        (msgs, currentRole, currentContent) \<Rightarrow> push_span msgs currentRole currentContent)"

text \<open>
  The prompt branch, entered with a truthy \<^verbatim>\<open>request.prompt\<close>.  Strings and arrays have
  a method \<^verbatim>\<open>includes\<close>; only strings have \<^verbatim>\<open>split\<close>, and calling a method that a
  value does not have throws.
\<close>

definition prompt_messages :: "json \<Rightarrow> json message list option" where
  "prompt_messages prompt =
     (case prompt of
        JStr p \<Rightarrow>
          if \<not> includes p ''<user>'' \<and> \<not> includes p ''<assistant>''
          then Some [\<lparr>role = JStr ''user'', content = prompt\<rparr>]
          else Some (parse_prompt_tags p)
      | JArr xs \<Rightarrow>
          if JStr ''<user>'' \<notin> set xs \<and> JStr ''<assistant>'' \<notin> set xs
          then Some [\<lparr>role = JStr ''user'', content = prompt\<rparr>]
          else None
      | _ \<Rightarrow> None)"

subsection \<open>The history array\<close>

fun history_messages :: "json list \<Rightarrow> json message list option" where
  "history_messages [] = Some []"
| "history_messages (item # items) =
     do {
       r \<leftarrow> get item ''role'';
       c \<leftarrow> get item ''content'';
       rest \<leftarrow> history_messages items;
       Some (if r = Some (JStr ''user'') then
               \<lparr>role = JStr ''user'', content = or_default c (JStr [])\<rparr> # rest
             else if r = Some (JStr ''assistant'') then
               \<lparr>role = JStr ''assistant'', content = or_default c (JStr [])\<rparr> # rest
             else rest)
     }"

subsection \<open>The normalised messages and the outbound request\<close>

text \<open>
  The message list of the outbound request: the sources in their order of precedence,
  each consulted while the list is still empty.  The first read of the body throws when
  the body is \<^verbatim>\<open>null\<close>.
\<close>

definition normalized_messages :: "json \<Rightarrow> json message list option" where
  "normalized_messages request =
     do {
       ms \<leftarrow> get request ''messages'';
       m1 \<leftarrow> (case ms of Some (JArr items) \<Rightarrow> array_messages items | _ \<Rightarrow> Some []);
       let m2 = (if m1 = [] then system_messages (get_opt (Some request) ''system'') else m1);
       m3 \<leftarrow> (if m2 = [] then
                (case get_opt (Some request) ''prompt'' of
                   Some p \<Rightarrow> if truthy p then prompt_messages p else Some []
                 | None \<Rightarrow> Some [])
              else Some m2);
       m4 \<leftarrow> (if m3 = [] then
                (case get_opt (Some request) ''history'' of
                   Some (JArr items) \<Rightarrow> history_messages items
                 | _ \<Rightarrow> Some [])
              else Some m3);
       Some (if m4 = [] then [\<lparr>role = JStr ''user'', content = JStr []\<rparr>] else m4)
     }"

text \<open>\<^verbatim>\<open>options?.repeat_penalty ? (options.repeat_penalty - 1) : undefined\<close>\<close>

definition frequency_penalty_of :: "runtime \<Rightarrow> jsval \<Rightarrow> jsval" where
  "frequency_penalty_of rt repeat_penalty =
     (case repeat_penalty of
        Some rp \<Rightarrow> if truthy rp then Some (js_minus_one rt rp) else None
      | None \<Rightarrow> None)"

definition translateOllamaToOpenAI :: "runtime \<Rightarrow> json \<Rightarrow> openai_request option" where
  "translateOllamaToOpenAI rt request =
     do {
       msgs \<leftarrow> normalized_messages request;
       let options = get_opt (Some request) ''options'';
       Some \<lparr>model = or_default (get_opt (Some request) ''model'') (JStr ''gpt-3.5-turbo''),
         messages = msgs,
         stream = or_default (get_opt (Some request) ''stream'') (JBool False),
         temperature = get_opt options ''temperature'',
         max_tokens = get_opt options ''num_predict'',
         top_p = get_opt options ''top_p'',
         frequency_penalty = frequency_penalty_of rt (get_opt options ''repeat_penalty''),
         presence_penalty = or_undefined (get_opt options ''presence_penalty''),
         tools = or_undefined (get_opt (Some request) ''tools''),
         tool_choice = or_undefined (get_opt options ''tool_choice''),
         response_format = or_undefined (get_opt options ''response_format'')\<rparr>
     }"

section \<open>Replies of the gateway\<close>

record reply =
  model :: jsval
  created_at :: string
  "done" :: bool
  prompt_eval_count :: jsval
  eval_count :: jsval
  total_tokens :: jsval

record 'm chat_reply = reply +
  message :: 'm

record generate_reply = reply +
  response :: jsval


text \<open>A property that is missing or \<^verbatim>\<open>null\<close>.\<close>

definition absent :: "jsval \<Rightarrow> bool" where
  "absent v = (v = None \<or> v = Some JNull)"

section \<open>Translating a complete upstream response\<close>

text \<open>\<^verbatim>\<open>response.choices[0]\<close>: throws when \<^verbatim>\<open>choices\<close> is absent or null.\<close>

definition first_choice :: "json \<Rightarrow> jsval option" where
  "first_choice resp = do { choices \<leftarrow> get resp ''choices''; getv choices ''0'' }"

text \<open>\<^verbatim>\<open>response.choices[0].message\<close>: throws also when there is no first choice.\<close>

definition first_choice_message :: "json \<Rightarrow> jsval option" where
  "first_choice_message resp = do { c \<leftarrow> first_choice resp; getv c ''message'' }"

text \<open>\<^verbatim>\<open>response.choices[0].finish_reason === 'stop'\<close>\<close>

definition finished_stop :: "json \<Rightarrow> bool option" where
  "finished_stop resp =
     do { c \<leftarrow> first_choice resp; fr \<leftarrow> getv c ''finish_reason'';
          Some (fr = Some (JStr ''stop'')) }"

text \<open>
  \<^verbatim>\<open>response.timings && response.timings.cache_n !== undefined\<close>: the value of
  \<^verbatim>\<open>cache_n\<close> when the test succeeds.
\<close>

definition timings_cache_n :: "jsval \<Rightarrow> jsval" where
  "timings_cache_n timings = (if truthyv timings then get_opt timings ''cache_n'' else None)"

definition translateOpenAIToOllamaChat :: "runtime \<Rightarrow> json \<Rightarrow> (jsval message) chat_reply option" where
  "translateOpenAIToOllamaChat rt resp =
     do {
       usage \<leftarrow> get resp ''usage'';
       if truthyv usage then
         do {
           mdl \<leftarrow> get resp ''model'';
           created \<leftarrow> get resp ''created'';
           stamp \<leftarrow> date_iso rt created;
           m \<leftarrow> first_choice_message resp;
           r \<leftarrow> getv m ''role'';
           c \<leftarrow> getv m ''content'';
           d \<leftarrow> finished_stop resp;
           Some \<lparr>model = mdl, created_at = stamp, done = d,
             prompt_eval_count = Some (or_default (get_opt usage ''prompt_tokens'') (JNum 0)),
             eval_count = Some (or_default (get_opt usage ''completion_tokens'') (JNum 0)),
             total_tokens = Some (or_default (get_opt usage ''total_tokens'') (JNum 0)),
             message = \<lparr>role = r, content = c\<rparr>\<rparr>
         }
       else
         do {
           timings \<leftarrow> get resp ''timings'';
           case timings_cache_n timings of
             Some cache_n \<Rightarrow>
               do {
                 mdl \<leftarrow> get resp ''model'';
                 created \<leftarrow> get resp ''created'';
                 stamp \<leftarrow> date_iso rt created;
                 m \<leftarrow> first_choice_message resp;
                 r \<leftarrow> getv m ''role'';
                 c \<leftarrow> getv m ''content'';
                 d \<leftarrow> finished_stop resp;
                 Some \<lparr>model = mdl, created_at = stamp, done = d,
                   prompt_eval_count = Some cache_n,
                   eval_count = Some (or_default (get_opt timings ''predicted_n'') (JNum 0)),
                   total_tokens = Some (js_plus rt cache_n
                     (or_default (get_opt timings ''predicted_n'') (JNum 0))),
                   message = \<lparr>role = r, content = c\<rparr>\<rparr>
               }
           | None \<Rightarrow>
               do {
                 mdl \<leftarrow> get resp ''model'';
                 created \<leftarrow> get resp ''created'';
                 stamp \<leftarrow> date_iso rt created;
                 m \<leftarrow> first_choice_message resp;
                 r \<leftarrow> getv m ''role'';
                 c \<leftarrow> getv m ''content'';
                 d \<leftarrow> finished_stop resp;
                 Some \<lparr>model = mdl, created_at = stamp, done = d,
                   prompt_eval_count = Some (JNum 0), eval_count = Some (JNum 0),
                   total_tokens = Some (JNum 0),
                   message = \<lparr>role = r, content = c\<rparr>\<rparr>
               }
         }
     }"

definition translateOpenAIToOllamaGenerate :: "runtime \<Rightarrow> json \<Rightarrow> generate_reply option" where
  "translateOpenAIToOllamaGenerate rt resp =
     do {
       usage \<leftarrow> get resp ''usage'';
       if truthyv usage then
         do {
           mdl \<leftarrow> get resp ''model'';
           created \<leftarrow> get resp ''created'';
           stamp \<leftarrow> date_iso rt created;
           m \<leftarrow> first_choice_message resp;
           c \<leftarrow> getv m ''content'';
           d \<leftarrow> finished_stop resp;
           Some \<lparr>model = mdl, created_at = stamp, done = d,
             prompt_eval_count = Some (or_default (get_opt usage ''prompt_tokens'') (JNum 0)),
             eval_count = Some (or_default (get_opt usage ''completion_tokens'') (JNum 0)),
             total_tokens = Some (or_default (get_opt usage ''total_tokens'') (JNum 0)),
             response = c\<rparr>
         }
       else
         do {
           timings \<leftarrow> get resp ''timings'';
           case timings_cache_n timings of
             Some cache_n \<Rightarrow>
               do {
                 mdl \<leftarrow> get resp ''model'';
                 created \<leftarrow> get resp ''created'';
                 stamp \<leftarrow> date_iso rt created;
                 m \<leftarrow> first_choice_message resp;
                 c \<leftarrow> getv m ''content'';
                 d \<leftarrow> finished_stop resp;
                 Some \<lparr>model = mdl, created_at = stamp, done = d,
                   prompt_eval_count = Some cache_n,
                   eval_count = Some (or_default (get_opt timings ''predicted_n'') (JNum 0)),
                   total_tokens = Some (js_plus rt cache_n
                     (or_default (get_opt timings ''predicted_n'') (JNum 0))),
                   response = c\<rparr>
               }
           | None \<Rightarrow>
               do {
                 mdl \<leftarrow> get resp ''model'';
                 created \<leftarrow> get resp ''created'';
                 stamp \<leftarrow> date_iso rt created;
                 m \<leftarrow> first_choice_message resp;
                 c \<leftarrow> getv m ''content'';
                 d \<leftarrow> finished_stop resp;
                 Some \<lparr>model = mdl, created_at = stamp, done = d,
                   prompt_eval_count = Some (JNum 0), eval_count = Some (JNum 0),
                   total_tokens = Some (JNum 0),
                   response = c\<rparr>
               }
         }
     }"

section \<open>Translating one streamed delta\<close>

record stream_message = "json message" +
  tool_calls :: jsval

record ollama_response = "stream_message chat_reply" +
  done_reason :: jsval
  "context" :: jsval
  total_duration :: jsval
  load_duration :: jsval
  prompt_eval_duration :: jsval
  eval_duration :: jsval

text \<open>\<^verbatim>\<open>delta.tool_calls && delta.tool_calls.length > 0\<close>\<close>

definition has_tool_calls :: "runtime \<Rightarrow> jsval \<Rightarrow> bool" where
  "has_tool_calls rt tc = (truthyv tc \<and> js_positive rt (get_opt tc ''length''))"

definition translateOpenAIStreamToOllamaChat :: "runtime \<Rightarrow> json \<Rightarrow> ollama_response option" where
  "translateOpenAIStreamToOllamaChat rt resp =
     do {
       c0 \<leftarrow> first_choice resp;
       d \<leftarrow> getv c0 ''delta'';
       let delta = Some (or_default d (JObj []));
       let tc = get_opt delta ''tool_calls'';
       let msg = \<lparr>role = or_default (get_opt delta ''role'') (JStr ''assistant''),
                  content = or_default (get_opt delta ''content'') (JStr []),
                  tool_calls = (if has_tool_calls rt tc then tc else None)\<rparr>;
       fr \<leftarrow> getv c0 ''finish_reason'';
       let isDone = truthyv fr;
       mdl \<leftarrow> get resp ''model'';
       usage \<leftarrow> get resp ''usage'';
       timings \<leftarrow> get resp ''timings'';
       let cache_n = timings_cache_n timings;
       let predicted = or_default (get_opt timings ''predicted_n'') (JNum 0);
       let with_timing = (isDone \<and> truthyv timings);
       Some \<lparr>model = mdl, created_at = now_iso rt, done = isDone,
         prompt_eval_count =
           (if truthyv usage then Some (or_default (get_opt usage ''prompt_tokens'') (JNum 0))
            else cache_n),
         eval_count =
           (if truthyv usage then Some (or_default (get_opt usage ''completion_tokens'') (JNum 0))
            else if cache_n \<noteq> None then Some predicted else None),
         total_tokens =
           (if truthyv usage then Some (or_default (get_opt usage ''total_tokens'') (JNum 0))
            else (case cache_n of Some n \<Rightarrow> Some (js_plus rt n predicted) | None \<Rightarrow> None)),
         message = msg,
         done_reason = (if isDone then Some (JStr ''stop'') else None),
         context = (if isDone then Some (JArr []) else None),
         total_duration =
           (if with_timing then Some (or_default (get_opt timings ''total_duration'') (JNum 0))
            else None),
         load_duration =
           (if with_timing then Some (or_default (get_opt timings ''load_duration'') (JNum 0))
            else None),
         prompt_eval_duration =
           (if with_timing then Some (or_default (get_opt timings ''prompt_eval_duration'') (JNum 0))
            else None),
         eval_duration =
           (if with_timing then Some (or_default (get_opt timings ''eval_duration'') (JNum 0))
            else None)\<rparr>
     }"

section \<open>The streaming exchange\<close>

text \<open>
  What the handlers do to the response object \<^verbatim>\<open>res\<close> is recorded in order.  A written
  line is \<^verbatim>\<open>JSON.stringify(obj) + '\n'\<close> for a frame or an error object
  \<^verbatim>\<open>{error: e}\<close>, or the terminal marker \<^verbatim>\<open>'[DONE]\n'\<close>; the handler of a failed
  connection writes both with a second line feed.  A property whose value is
  \<^verbatim>\<open>undefined\<close> is left out by \<^verbatim>\<open>JSON.stringify\<close>, so a frame with fewer properties is a
  frame whose other fields are \<open>None\<close>.  The serialisation of an object starts with a
  brace: no frame is the marker.  \<^verbatim>\<open>res.write\<close> and \<^verbatim>\<open>res.end\<close> return normally,
  also after the end of the response; \<^verbatim>\<open>res.flush\<close> throws when the response object
  has no such method.  An exception thrown inside a \<^verbatim>\<open>try\<close> runs its \<^verbatim>\<open>catch\<close>
  block.  An exception that leaves a handler is not caught by anything: the flag
  \<open>uncaught\<close> is set, and no later event is handled.
\<close>

datatype written =
    Frame ollama_response
  | Error_frame jsval
  | Marker
  | Error_frame_blank jsval
  | Marker_blank

datatype body =
    Chat_body "(jsval message) chat_reply"
  | Generate_body generate_reply
  | Error_body jsval

datatype res_op =
    Write_head nat
  | Write written
  | Flush
  | End

record session =
  responseBuffer :: string
  firstChunk :: bool
  streamEnded :: bool
  uncaught :: bool
  res :: "res_op list"

definition res_write :: "written \<Rightarrow> session \<Rightarrow> session" where
  "res_write w st = st\<lparr>res := res st @ [Write w]\<rparr>"

text \<open>\<^verbatim>\<open>res.flush()\<close>; \<open>None\<close> is the TypeError.\<close>

definition res_flush :: "runtime \<Rightarrow> session \<Rightarrow> session option" where
  "res_flush rt st = (if res_has_flush rt then Some (st\<lparr>res := res st @ [Flush]\<rparr>) else None)"

definition res_end :: "session \<Rightarrow> session" where
  "res_end st = st\<lparr>res := res st @ [End]\<rparr>"

text \<open>
  The statements \<^verbatim>\<open>res.write('[DONE]\n'); res.flush(); res.end(); streamEnded = true\<close>.
  \<open>Inr\<close> is the session after them, \<open>Inl\<close> the session at the point where
  \<^verbatim>\<open>res.flush()\<close> threw: the marker is written, the response is not ended.
\<close>

definition finish_flush :: "runtime \<Rightarrow> session \<Rightarrow> session + session" where
  "finish_flush rt st =
     (case res_flush rt (res_write Marker st) of
        None \<Rightarrow> Inl (res_write Marker st)
      | Some flushed \<Rightarrow> Inr ((res_end flushed)\<lparr>streamEnded := True\<rparr>))"

text \<open>An exception leaves the handler.\<close>

definition escape :: "session \<Rightarrow> session" where
  "escape st = st\<lparr>uncaught := True\<rparr>"

definition error_object :: "string \<Rightarrow> string \<Rightarrow> json" where
  "error_object msg type = JObj [(''message'', JStr msg), (''type'', JStr type)]"

text \<open>The \<^verbatim>\<open>catch (parseError)\<close> block of the data handler.\<close>

definition parse_failure :: "session \<Rightarrow> session" where
  "parse_failure st =
     (res_end (res_write Marker
        (res_write (Error_frame (Some (error_object ''Error parsing response'' ''parse_error''))) st)))
     \<lparr>streamEnded := True\<rparr>"

text \<open>The frames of the data handler, built from the translated delta.\<close>

definition firstChunkData :: "ollama_response \<Rightarrow> ollama_response" where
  "firstChunkData ollamaData =
     \<lparr>model = model ollamaData, created_at = created_at ollamaData, done = False,
      prompt_eval_count = prompt_eval_count ollamaData, eval_count = eval_count ollamaData,
      total_tokens = total_tokens ollamaData,
      message = \<lparr>role = JStr ''assistant'', content = JStr [], tool_calls = None\<rparr>,
      done_reason = None, context = None, total_duration = None, load_duration = None,
      prompt_eval_duration = None, eval_duration = None\<rparr>"

definition content_chunk :: "ollama_response \<Rightarrow> ollama_response" where
  "content_chunk ollamaData =
     \<lparr>model = model ollamaData, created_at = created_at ollamaData, done = False,
      prompt_eval_count = prompt_eval_count ollamaData, eval_count = eval_count ollamaData,
      total_tokens = total_tokens ollamaData,
      message = message ollamaData,
      done_reason = None, context = None, total_duration = None, load_duration = None,
      prompt_eval_duration = None, eval_duration = None\<rparr>"

definition final_chunk :: "ollama_response \<Rightarrow> ollama_response" where
  "final_chunk ollamaData =
     \<lparr>model = model ollamaData, created_at = created_at ollamaData, done = True,
      prompt_eval_count = prompt_eval_count ollamaData, eval_count = eval_count ollamaData,
      total_tokens = total_tokens ollamaData,
      message = message ollamaData,
      done_reason = done_reason ollamaData, context = context ollamaData,
      total_duration = total_duration ollamaData, load_duration = load_duration ollamaData,
      prompt_eval_duration = prompt_eval_duration ollamaData,
      eval_duration = eval_duration ollamaData\<rparr>"

text \<open>\<^verbatim>\<open>ollamaData.message.content || ollamaData.message.tool_calls\<close>\<close>

definition has_content :: "ollama_response \<Rightarrow> bool" where
  "has_content ollamaData =
     (truthy (content (message ollamaData)) \<or> truthyv (tool_calls (message ollamaData)))"

text \<open>
  The data handler from the translated delta on: the opening frame on the first delta,
  the content frame, the final frame and the marker.  These statements are inside the
  \<^verbatim>\<open>try\<close>: when \<^verbatim>\<open>res.flush()\<close> throws, the \<^verbatim>\<open>catch\<close> block runs.
\<close>

definition emit_delta :: "runtime \<Rightarrow> session \<Rightarrow> ollama_response \<Rightarrow> session" where
  "emit_delta rt st ollamaData =
     (let st1 = (if firstChunk st
                 then (res_write (Frame (firstChunkData ollamaData)) st)\<lparr>firstChunk := False\<rparr>
                 else st);
          st2 = (if has_content ollamaData then res_write (Frame (content_chunk ollamaData)) st1
                 else st1);
          st3 = (if done ollamaData then res_write (Frame (final_chunk ollamaData)) st2 else st2)
      in if done ollamaData
         then (case finish_flush rt st3 of
                 Inl thrown \<Rightarrow> parse_failure thrown
               | Inr ended \<Rightarrow> ended)
         else st3)"

text \<open>
  The loop of the data handler over the complete lines.  It returns from the handler at
  a \<^verbatim>\<open>[DONE]\<close> payload and at an error payload; after the final frame of a delta and
  after the \<^verbatim>\<open>catch\<close> block it goes on with the next line.  The branch of the
  \<^verbatim>\<open>[DONE]\<close> payload is outside the \<^verbatim>\<open>try\<close>.
\<close>

fun data_lines :: "runtime \<Rightarrow> session \<Rightarrow> string list \<Rightarrow> session" where
  "data_lines rt st [] = st"
| "data_lines rt st (line # lines) =
     (if starts_with ''data: '' line then
        (let data = drop 6 line in
         if data = ''[DONE]'' then
           (if \<not> streamEnded st
            then (case finish_flush rt st of
                    Inl thrown \<Rightarrow> escape thrown
                  | Inr ended \<Rightarrow> ended)
            else st)
         else
           (case JSON_parse rt data of
              None \<Rightarrow> data_lines rt (parse_failure st) lines
            | Some jsonData \<Rightarrow>
                (case get jsonData ''error'' of
                   None \<Rightarrow> data_lines rt (parse_failure st) lines
                 | Some err \<Rightarrow>
                     if truthyv err then
                       (res_end (res_write Marker (res_write (Error_frame err) st)))
                       \<lparr>streamEnded := True\<rparr>
                     else
                       (case translateOpenAIStreamToOllamaChat rt jsonData of
                          None \<Rightarrow> data_lines rt (parse_failure st) lines
                        | Some ollamaData \<Rightarrow> data_lines rt (emit_delta rt st ollamaData) lines))))
      else data_lines rt st lines)"

text \<open>\<^verbatim>\<open>openaiResponse.data.on('data', ...)\<close>; the chunk is the text of its bytes.\<close>

definition on_data :: "runtime \<Rightarrow> session \<Rightarrow> string \<Rightarrow> session" where
  "on_data rt st chunk =
     (if streamEnded st then st
      else
        (let lines = split_nl (responseBuffer st @ chunk)
         in data_lines rt (st\<lparr>responseBuffer := last lines\<rparr>) (butlast lines)))"

text \<open>The frame of the end handler: \<^verbatim>\<open>{model, created_at, message, done}\<close>.\<close>

definition residual_chunk :: "ollama_response \<Rightarrow> ollama_response" where
  "residual_chunk ollamaData =
     \<lparr>model = model ollamaData, created_at = created_at ollamaData, done = done ollamaData,
      prompt_eval_count = None, eval_count = None, total_tokens = None,
      message = message ollamaData,
      done_reason = None, context = None, total_duration = None, load_duration = None,
      prompt_eval_duration = None, eval_duration = None\<rparr>"

text \<open>
  The \<^verbatim>\<open>catch (parseError)\<close> block of the end handler, which calls \<^verbatim>\<open>res.flush()\<close>:
  an exception thrown there leaves the handler.
\<close>

definition end_failure :: "runtime \<Rightarrow> session \<Rightarrow> session" where
  "end_failure rt st =
     (case finish_flush rt
        (res_write (Error_frame (Some (error_object ''Error parsing response'' ''parse_error''))) st)
      of Inl thrown \<Rightarrow> escape thrown
       | Inr ended \<Rightarrow> ended)"

text \<open>
  The loop of the end handler over the lines of the remaining buffer.  It stops where
  an exception leaves the handler.  Where it returns from the handler,
  \<^verbatim>\<open>streamEnded\<close> is set (or the exception has left), so that the test after the loop,
  which the model always makes, does nothing then.
\<close>

fun end_lines :: "runtime \<Rightarrow> session \<Rightarrow> string list \<Rightarrow> session" where
  "end_lines rt st [] = st"
| "end_lines rt st (line # lines) =
     (if starts_with ''data: '' line then
        (let data = drop 6 line;
             failed = end_failure rt st
         in
         if data = ''[DONE]'' then
           (if \<not> streamEnded st
            then (case finish_flush rt st of
                    Inl thrown \<Rightarrow> escape thrown
                  | Inr ended \<Rightarrow> ended)
            else st)
         else
           (case JSON_parse rt data of
              None \<Rightarrow> if uncaught failed then failed else end_lines rt failed lines
            | Some jsonData \<Rightarrow>
                (case get jsonData ''error'' of
                   None \<Rightarrow> if uncaught failed then failed else end_lines rt failed lines
                 | Some err \<Rightarrow>
                     if truthyv err then
                       (case finish_flush rt (res_write (Error_frame err) st) of
                          Inl thrown \<Rightarrow>
                            if uncaught (end_failure rt thrown) then end_failure rt thrown
                            else end_lines rt (end_failure rt thrown) lines
                        | Inr ended \<Rightarrow> ended)
                     else
                       (case translateOpenAIStreamToOllamaChat rt jsonData of
                          None \<Rightarrow> if uncaught failed then failed else end_lines rt failed lines
                        | Some ollamaData \<Rightarrow>
                            (let st1 = res_write (Frame (residual_chunk ollamaData)) st
                             in if done ollamaData then
                                  (case finish_flush rt st1 of
                                     Inl thrown \<Rightarrow>
                                       if uncaught (end_failure rt thrown)
                                       then end_failure rt thrown
                                       else end_lines rt (end_failure rt thrown) lines
                                   | Inr ended \<Rightarrow> end_lines rt ended lines)
                                else end_lines rt st1 lines)))))
      else end_lines rt st lines)"

definition on_end :: "runtime \<Rightarrow> session \<Rightarrow> session" where
  "on_end rt st =
     (if streamEnded st then st
      else
        (let st1 = (if trim (responseBuffer st) \<noteq> []
                    then end_lines rt st (split_nl (responseBuffer st)) else st)
         in if uncaught st1 then st1
            else if \<not> streamEnded st1
            then (case finish_flush rt st1 of
                    Inl thrown \<Rightarrow> escape thrown
                  | Inr ended \<Rightarrow> ended)
            else st1))"

definition on_close :: "session \<Rightarrow> session" where
  "on_close st =
     (if \<not> streamEnded st
      then (res_end (res_write Marker st))\<lparr>streamEnded := True\<rparr>
      else st)"

text \<open>The error handler; its argument is \<^verbatim>\<open>error.message\<close>.\<close>

definition on_error :: "session \<Rightarrow> string \<Rightarrow> session" where
  "on_error st msg =
     (if \<not> streamEnded st
      then (res_end (res_write Marker
              (res_write (Error_frame (Some (error_object (if msg \<noteq> [] then msg else ''Stream error'')
                                            ''stream_error''))) st)))
           \<lparr>streamEnded := True\<rparr>
      else st)"

text \<open>The events of the upstream response stream, and a session driven by them.\<close>

datatype event =
    Data string
  | End_of_stream
  | Close
  | Error string

fun dispatch :: "runtime \<Rightarrow> session \<Rightarrow> event \<Rightarrow> session" where
  "dispatch rt st (Data chunk) = on_data rt st chunk"
| "dispatch rt st End_of_stream = on_end rt st"
| "dispatch rt st Close = on_close st"
| "dispatch rt st (Error msg) = on_error st msg"

definition handle :: "runtime \<Rightarrow> session \<Rightarrow> event \<Rightarrow> session" where
  "handle rt st ev = (if uncaught st then st else dispatch rt st ev)"

definition new_session :: session where
  "new_session =
     \<lparr>responseBuffer = [], firstChunk = True, streamEnded = False, uncaught = False, res = []\<rparr>"

definition run_session :: "runtime \<Rightarrow> event list \<Rightarrow> session" where
  "run_session rt events = foldl (handle rt) new_session events"

text \<open>What a session wrote, in order, and how often it wrote the marker.\<close>

fun writes :: "res_op list \<Rightarrow> written list" where
  "writes [] = []"
| "writes (Write w # ops) = w # writes ops"
| "writes (op # ops) = writes ops"

definition marker_count :: "res_op list \<Rightarrow> nat" where
  "marker_count ops = length (filter (\<lambda>w. w = Marker) (writes ops))"

section \<open>The endpoints\<close>

text \<open>
  The error with which a call of the HTTP client is rejected: \<^verbatim>\<open>error.response\<close> (its
  status and its body) when the upstream answered with a status outside 2xx,
  \<^verbatim>\<open>error.code\<close> and \<^verbatim>\<open>error.message\<close>.  An exception thrown by the program itself
  has neither response nor code.
\<close>

record upstream_error =
  error_response :: "(nat \<times> jsval) option"
  error_code :: "string option"
  error_message :: string

definition thrown_error :: "runtime \<Rightarrow> upstream_error" where
  "thrown_error rt =
     \<lparr>error_response = None, error_code = None, error_message = type_error_message rt\<rparr>"

text \<open>
  The HTTP client as a function of the request it sends: \<open>post\<close> is the plain call,
  \<open>post_stream\<close> the call with \<^verbatim>\<open>responseType: 'stream'\<close>, whose data is a stream
  that emits events, or is not a stream.
\<close>

datatype stream_body =
    Events "event list"
  | Not_a_stream json

record client =
  post :: "openai_request \<Rightarrow> upstream_error + json"
  post_stream :: "openai_request \<Rightarrow> upstream_error + stream_body"

datatype http_reply =
    Reply nat body
  | Streamed "res_op list"

text \<open>The \<^verbatim>\<open>catch (error)\<close> block of both endpoints.\<close>

definition caught :: "upstream_error \<Rightarrow> http_reply" where
  "caught error =
     (case error_response error of
        Some (status, data) \<Rightarrow> Reply status (Error_body data)
      | None \<Rightarrow>
          if error_code error = Some ''ECONNABORTED'' then
            Reply 504 (Error_body (Some (error_object
              ''Request timeout - the OpenAI server took too long to respond'' ''timeout_error'')))
          else
            Reply 500 (Error_body (Some (error_object ''Internal server error'' ''server_error''))))"

definition api_generate :: "runtime \<Rightarrow> client \<Rightarrow> json \<Rightarrow> http_reply" where
  "api_generate rt cl ollamaRequest =
     (case translateOllamaToOpenAI rt ollamaRequest of
        None \<Rightarrow> caught (thrown_error rt)
      | Some openaiRequest \<Rightarrow>
          (case post cl openaiRequest of
             Inl error \<Rightarrow> caught error
           | Inr data \<Rightarrow>
               (case translateOpenAIToOllamaGenerate rt data of
                  None \<Rightarrow> caught (thrown_error rt)
                | Some ollamaResponse \<Rightarrow> Reply 200 (Generate_body ollamaResponse))))"

text \<open>
  The choice of the mode in the chat endpoint; the second argument is the
  \<^verbatim>\<open>Accept\<close> header, if there is one.
\<close>

definition isStreaming :: "json \<Rightarrow> string option \<Rightarrow> bool option" where
  "isStreaming ollamaRequest accept_header =
     do {
       s \<leftarrow> get ollamaRequest ''stream'';
       let accept = (case accept_header of Some a \<Rightarrow> a | None \<Rightarrow> []);
       let wanted = (truthyv s \<or> includes accept ''text/event-stream'');
       let ms = get_opt (Some ollamaRequest) ''messages'';
       Some (if wanted \<and> (\<not> truthyv ms \<or> get_opt ms ''length'' = Some (JNum 0))
             then False else wanted)
     }"

text \<open>The \<^verbatim>\<open>catch (error)\<close> block inside the streaming branch.\<close>

definition stream_failure :: "upstream_error \<Rightarrow> res_op list" where
  "stream_failure error =
     [Write (Error_frame_blank (Some (error_object
        (if error_message error \<noteq> [] then error_message error else ''Internal server error'')
        ''server_error''))),
      Write Marker_blank, End]"

text \<open>
  The streaming branch, after \<^verbatim>\<open>res.writeHead\<close>.  When the data of the response is
  not a stream, the plain call is made and its response translated; \<^verbatim>\<open>res.json\<close>
  then sets a header of a response whose head is written, which throws: in each case
  the \<^verbatim>\<open>catch\<close> block writes.
\<close>

definition headers_sent_error :: "runtime \<Rightarrow> upstream_error" where
  "headers_sent_error rt =
     \<lparr>error_response = None, error_code = Some ''ERR_HTTP_HEADERS_SENT'',
      error_message = headers_sent_message rt\<rparr>"

definition chat_stream :: "runtime \<Rightarrow> client \<Rightarrow> openai_request \<Rightarrow> res_op list" where
  "chat_stream rt cl openaiRequest =
     (case post_stream cl (openaiRequest\<lparr>stream := JBool True\<rparr>) of
        Inl error \<Rightarrow> stream_failure error
      | Inr (Not_a_stream d) \<Rightarrow>
          (case post cl openaiRequest of
             Inl error \<Rightarrow> stream_failure error
           | Inr data \<Rightarrow>
               (case translateOpenAIToOllamaChat rt data of
                  None \<Rightarrow> stream_failure (thrown_error rt)
                | Some ollamaResponse \<Rightarrow> stream_failure (headers_sent_error rt)))
      | Inr (Events events) \<Rightarrow> res (run_session rt events))"

definition api_chat :: "runtime \<Rightarrow> client \<Rightarrow> json \<Rightarrow> string option \<Rightarrow> http_reply" where
  "api_chat rt cl ollamaRequest accept_header =
     (case isStreaming ollamaRequest accept_header of
        None \<Rightarrow> caught (thrown_error rt)
      | Some streaming \<Rightarrow>
          (case translateOllamaToOpenAI rt ollamaRequest of
             None \<Rightarrow> caught (thrown_error rt)
           | Some translated \<Rightarrow>
               (let openaiRequest =
                      (if streaming then translated\<lparr>stream := JBool True\<rparr> else translated)
                in if streaming then
                     Streamed (Write_head 200 # chat_stream rt cl openaiRequest)
                   else
                     (case post cl openaiRequest of
                        Inl error \<Rightarrow> caught error
                      | Inr data \<Rightarrow>
                          (case translateOpenAIToOllamaChat rt data of
                             None \<Rightarrow> caught (thrown_error rt)
                           | Some ollamaResponse \<Rightarrow> Reply 200 (Chat_body ollamaResponse))))))"

section \<open>A runtime to evaluate the model with\<close>

text \<open>
  To run the model on concrete inputs, the built-ins need values.  \<open>json_parse\<close> reads
  the JSON texts without escape sequences, fractions and exponents, and rejects every
  other text; on the texts evaluated below it returns what \<^verbatim>\<open>JSON.parse\<close> returns.
  The other built-ins are given on the arguments that occur below: the date of the
  epoch, the number denoted by a string of digits.  In \<open>sample_runtime\<close> the response
  object has a method \<^verbatim>\<open>flush\<close>, as with a compression middleware.
\<close>

definition is_blank :: "char \<Rightarrow> bool" where
  "is_blank c = (c = CHR '' '' \<or> c = CHR 0x09 \<or> c = CHR 0x0A \<or> c = CHR 0x0D)"

fun skip_blanks :: "string \<Rightarrow> string" where
  "skip_blanks [] = []"
| "skip_blanks (c # cs) = (if is_blank c then skip_blanks cs else c # cs)"

fun read_string :: "string \<Rightarrow> (string \<times> string) option" where
  "read_string [] = None"
| "read_string (c # cs) =
     (if c = CHR 0x22 then Some ([], cs)
      else if c = CHR 0x5C \<or> of_char c < (32::nat) then None
      else (case read_string cs of None \<Rightarrow> None | Some (s, r) \<Rightarrow> Some (c # s, r)))"

definition is_digit :: "char \<Rightarrow> bool" where
  "is_digit c = (48 \<le> (of_char c :: nat) \<and> (of_char c :: nat) \<le> 57)"

fun read_digits :: "nat \<Rightarrow> string \<Rightarrow> nat \<times> string" where
  "read_digits acc [] = (acc, [])"
| "read_digits acc (c # cs) =
     (if is_digit c then read_digits (10 * acc + (of_char c - 48)) cs else (acc, c # cs))"

definition read_integer :: "string \<Rightarrow> (rat \<times> string) option" where
  "read_integer s =
     (let (neg, t) = (case s of c # cs \<Rightarrow> if c = CHR ''-'' then (True, cs) else (False, s) | [] \<Rightarrow> (False, s))
      in case t of
           [] \<Rightarrow> None
         | d # ds \<Rightarrow>
             if \<not> is_digit d then None
             else if d = CHR ''0'' \<and> (case ds of [] \<Rightarrow> False | e # _ \<Rightarrow> is_digit e) then None
             else (case read_digits 0 t of (n, r) \<Rightarrow>
                     (case r of
                        e # _ \<Rightarrow> if e = CHR ''.'' \<or> e = CHR ''e'' \<or> e = CHR ''E'' then None
                                 else Some (if neg then - of_nat n else of_nat n, r)
                      | [] \<Rightarrow> Some (if neg then - of_nat n else of_nat n, r))))"

fun read_value :: "nat \<Rightarrow> string \<Rightarrow> (json \<times> string) option"
  and read_elements :: "nat \<Rightarrow> string \<Rightarrow> (json list \<times> string) option"
  and read_members :: "nat \<Rightarrow> string \<Rightarrow> ((string \<times> json) list \<times> string) option"
where
  "read_value 0 s = None"
| "read_value (Suc n) s =
     (case skip_blanks s of
        [] \<Rightarrow> None
      | c # cs \<Rightarrow>
          if c = CHR ''{'' then
            (case skip_blanks cs of
               [] \<Rightarrow> None
             | d # ds \<Rightarrow>
                 if d = CHR ''}'' then Some (JObj [], ds)
                 else (case read_members n (d # ds) of
                         None \<Rightarrow> None | Some (kvs, r) \<Rightarrow> Some (JObj kvs, r)))
          else if c = CHR ''['' then
            (case skip_blanks cs of
               [] \<Rightarrow> None
             | d # ds \<Rightarrow>
                 if d = CHR '']'' then Some (JArr [], ds)
                 else (case read_elements n (d # ds) of
                         None \<Rightarrow> None | Some (xs, r) \<Rightarrow> Some (JArr xs, r)))
          else if c = CHR 0x22 then
            (case read_string cs of None \<Rightarrow> None | Some (str, r) \<Rightarrow> Some (JStr str, r))
          else if take 4 (c # cs) = ''true'' then Some (JBool True, drop 4 (c # cs))
          else if take 5 (c # cs) = ''false'' then Some (JBool False, drop 5 (c # cs))
          else if take 4 (c # cs) = ''null'' then Some (JNull, drop 4 (c # cs))
          else (case read_integer (c # cs) of
                  None \<Rightarrow> None | Some (q, r) \<Rightarrow> Some (JNum q, r)))"
| "read_elements 0 s = None"
| "read_elements (Suc n) s =
     (case read_value n s of
        None \<Rightarrow> None
      | Some (v, r) \<Rightarrow>
          (case skip_blanks r of
             [] \<Rightarrow> None
           | c # cs \<Rightarrow>
               if c = CHR '']'' then Some ([v], cs)
               else if c = CHR '','' then
                 (case read_elements n cs of
                    None \<Rightarrow> None | Some (vs, r') \<Rightarrow> Some (v # vs, r'))
               else None))"
| "read_members 0 s = None"
| "read_members (Suc n) s =
     (case skip_blanks s of
        [] \<Rightarrow> None
      | q # qs \<Rightarrow>
          if q \<noteq> CHR 0x22 then None
          else (case read_string qs of
                  None \<Rightarrow> None
                | Some (k, r) \<Rightarrow>
                    (case skip_blanks r of
                       [] \<Rightarrow> None
                     | c # cs \<Rightarrow>
                         if c \<noteq> CHR '':'' then None
                         else (case read_value n cs of
                                 None \<Rightarrow> None
                               | Some (v, r') \<Rightarrow>
                                   (case skip_blanks r' of
                                      [] \<Rightarrow> None
                                    | e # es \<Rightarrow>
                                        if e = CHR ''}'' then Some ([(k, v)], es)
                                        else if e = CHR '','' then
                                          (case read_members n es of
                                             None \<Rightarrow> None
                                           | Some (kvs, r'') \<Rightarrow>
                                               Some (if map_of kvs k = None then (k, v) # kvs else kvs, r''))
                                        else None)))))"

definition json_parse :: "string \<Rightarrow> json option" where
  "json_parse s =
     (case read_value (2 * length s + 2) s of
        None \<Rightarrow> None
      | Some (v, r) \<Rightarrow> if skip_blanks r = [] then Some v else None)"


definition sample_runtime :: runtime where
  "sample_runtime =
     \<lparr>JSON_parse = json_parse,
      date_iso = (\<lambda>v. if v = Some (JNum 0) then Some ''1970-01-01T00:00:00.000Z'' else None),
      now_iso = ''2025-01-01T00:00:00.000Z'',
      to_number = (\<lambda>v. case v of
                          JStr s \<Rightarrow> (case read_integer s of
                                       Some (n, []) \<Rightarrow> Some n | _ \<Rightarrow> None)
                        | _ \<Rightarrow> None),
      to_string = (\<lambda>v. case v of JStr s \<Rightarrow> s | _ \<Rightarrow> ''[object Object]''),
      type_error_message = ''Cannot read properties of undefined'',
      headers_sent_message = ''Cannot set headers after they are sent to the client'',
      res_has_flush = True\<rparr>"

text \<open>
  The same built-ins with the response object of the program as it is, which has no
  method \<^verbatim>\<open>flush\<close>.
\<close>

definition plain_runtime :: runtime where
  "plain_runtime = sample_runtime\<lparr>res_has_flush := False\<rparr>"


subsection \<open>Sample inputs\<close>

text \<open>
  A complete upstream response with one choice, with or without a usage block and
  timings, a usage block without its total, and the chunk that reports the usage of a
  stream, which has no choice.
\<close>

definition sample_response :: "jsval \<Rightarrow> jsval \<Rightarrow> json" where
  "sample_response usage timings =
     JObj ([(''model'', JStr ''m''), (''created'', JNum 0),
            (''choices'', JArr [JObj [(''message'', JObj [(''role'', JStr ''assistant''),
                                                        (''content'', JStr ''hi'')]),
                                     (''finish_reason'', JStr ''stop'')]])]
           @ (case usage of None \<Rightarrow> [] | Some u \<Rightarrow> [(''usage'', u)])
           @ (case timings of None \<Rightarrow> [] | Some t \<Rightarrow> [(''timings'', t)]))"

definition sample_usage :: json where
  "sample_usage =
     JObj [(''prompt_tokens'', JNum 5), (''completion_tokens'', JNum 3), (''total_tokens'', JNum 8)]"


definition sample_timings :: json where
  "sample_timings = JObj [(''cache_n'', JNum 7), (''predicted_n'', JNum 2)]"

definition usage_only_response :: json where
  "usage_only_response = JObj [(''choices'', JArr []), (''usage'', sample_usage)]"

definition chat_request :: json where
  "chat_request =
     JObj [(''messages'', JArr [JObj [(''role'', JStr ''assistant''), (''content'', JStr [])],
                                JObj [(''role'', JStr ''user''), (''content'', JStr ''hi'')]]),
           (''stream'', JBool True)]"

definition prompt_request :: json where
  "prompt_request = JObj [(''prompt'', JStr ''hi'')]"

definition prompt_stream_request :: json where
  "prompt_stream_request = JObj [(''prompt'', JStr ''hi''), (''stream'', JBool True)]"

definition penalty_request :: "rat \<Rightarrow> json" where
  "penalty_request x =
     JObj [(''prompt'', JStr ''hi''),
           (''options'', JObj [(''repeat_penalty'', JNum x), (''presence_penalty'', JNum 0),
                               (''temperature'', JNum 0)])]"

text \<open>An upstream that answers every call with the status 401 and an error body.\<close>

definition unauthorized_body :: json where
  "unauthorized_body = JObj [(''error'', JObj [(''message'', JStr ''Invalid API key'')])]"

definition unauthorized :: upstream_error where
  "unauthorized =
     \<lparr>error_response = Some (401, Some unauthorized_body),
      error_code = Some ''ERR_BAD_REQUEST'',
      error_message = ''Request failed with status code 401''\<rparr>"

definition unauthorized_client :: client where
  "unauthorized_client = \<lparr>post = (\<lambda>q. Inl unauthorized), post_stream = (\<lambda>q. Inl unauthorized)\<rparr>"

section \<open>Notions of the specification\<close>

text \<open>
  The body of a JSON reply as a JSON value, which is what \<^verbatim>\<open>res.json\<close> serialises:
  a property whose value is \<^verbatim>\<open>undefined\<close> is left out.
\<close>

definition object_of :: "(string \<times> jsval) list \<Rightarrow> json" where
  "object_of props =
     JObj (concat (map (\<lambda>(k, v). case v of None \<Rightarrow> [] | Some x \<Rightarrow> [(k, x)]) props))"

fun body_json :: "body \<Rightarrow> json" where
  "body_json (Chat_body r) =
     object_of [(''model'', reply.model r), (''created_at'', Some (JStr (created_at r))),
       (''message'', Some (object_of [(''role'', role (message r)),
                                      (''content'', content (message r))])),
       (''done'', Some (JBool (done r))),
       (''prompt_eval_count'', prompt_eval_count r), (''eval_count'', eval_count r),
       (''total_tokens'', total_tokens r)]"
| "body_json (Generate_body r) =
     object_of [(''model'', reply.model r), (''created_at'', Some (JStr (created_at r))),
       (''response'', response r), (''done'', Some (JBool (done r))),
       (''prompt_eval_count'', prompt_eval_count r), (''eval_count'', eval_count r),
       (''total_tokens'', total_tokens r)]"
| "body_json (Error_body e) = object_of [(''error'', e)]"

text \<open>
  An entry of the messages array that has both fields, as the specification words the
  filter; an entry both of whose fields are truthy, which is what the program tests; the
  message made of the two fields of an entry; a message as it is serialised in the
  outbound request; the request without its messages.
\<close>

definition present_entry :: "json \<Rightarrow> bool" where
  "present_entry item =
     (get_opt (Some item) ''role'' \<noteq> None \<and> get_opt (Some item) ''content'' \<noteq> None)"

definition kept_entry :: "json \<Rightarrow> bool" where
  "kept_entry item =
     (truthyv (get_opt (Some item) ''role'') \<and> truthyv (get_opt (Some item) ''content''))"

definition entry_message :: "json \<Rightarrow> json message" where
  "entry_message item =
     \<lparr>role = (case get_opt (Some item) ''role'' of Some v \<Rightarrow> v | None \<Rightarrow> JNull),
      content = (case get_opt (Some item) ''content'' of Some v \<Rightarrow> v | None \<Rightarrow> JNull)\<rparr>"

definition message_json :: "json message \<Rightarrow> json" where
  "message_json m = JObj [(''role'', role m), (''content'', content m)]"

definition without_messages :: "json \<Rightarrow> json" where
  "without_messages request =
     (case request of
        JObj kvs \<Rightarrow> JObj (filter (\<lambda>(k, v). k \<noteq> ''messages'') kvs)
      | _ \<Rightarrow> request)"













text \<open>
  The kinds of written lines: the marker; the synthetic opening frame, with empty
  content, no tool calls and \<^verbatim>\<open>done: false\<close>; a frame with content; a frame with
  \<^verbatim>\<open>done: true\<close>.
\<close>

definition is_marker :: "written \<Rightarrow> bool" where
  "is_marker w = (w = Marker)"

definition is_opening_frame :: "written \<Rightarrow> bool" where
  "is_opening_frame w =
     (case w of
        Frame f \<Rightarrow> content (message f) = JStr [] \<and> tool_calls (message f) = None \<and> \<not> done f
      | _ \<Rightarrow> False)"

definition is_content_frame :: "written \<Rightarrow> bool" where
  "is_content_frame w = (case w of Frame f \<Rightarrow> has_content f | _ \<Rightarrow> False)"

definition is_final_frame :: "written \<Rightarrow> bool" where
  "is_final_frame w = (case w of Frame f \<Rightarrow> done f | _ \<Rightarrow> False)"

text \<open>
  What reaches the client of the recorded operations: those before the response is
  ended.  A session is in order when no exception has left a handler and it either has
  not ended and has written neither the end nor the marker, or has ended and the marker
  is the last line written before the end, and the only marker there.
\<close>

definition delivered :: "res_op list \<Rightarrow> res_op list" where
  "delivered ops = takeWhile (\<lambda>op. op \<noteq> End) ops"

definition marker_last :: "written list \<Rightarrow> bool" where
  "marker_last ws =
     (case rev ws of [] \<Rightarrow> False | w # before \<Rightarrow> w = Marker \<and> Marker \<notin> set before)"

definition session_ok :: "session \<Rightarrow> bool" where
  "session_ok st =
     (\<not> uncaught st \<and>
      (if streamEnded st
       then End \<in> set (res st) \<and> marker_last (writes (delivered (res st)))
       else End \<notin> set (res st) \<and> Marker \<notin> set (writes (res st))))"

subsection \<open>Sample streams\<close>

text \<open>
  Three records of an upstream stream: a delta that finishes the completion, the record
  that reports the usage, whose \<^verbatim>\<open>choices\<close> are empty, and a delta with content.  In
  a stream they are separated by an empty line.
\<close>

definition finish_line :: string where
  \<open>finish_line = ''data: {"choices":[{"delta":{},"finish_reason":"stop"}]}''\<close>

definition usage_line :: string where
  \<open>usage_line =
     ''data: {"choices":[],"usage":{"prompt_tokens":5,"completion_tokens":3,"total_tokens":8}}''\<close>

definition content_line :: string where
  \<open>content_line = ''data: {"choices":[{"delta":{"content":"Hi"},"finish_reason":null}]}''\<close>

definition two_records_chunk :: string where
  "two_records_chunk = finish_line @ [newline, newline] @ usage_line @ [newline, newline]"

definition late_delta_chunk :: string where
  "late_delta_chunk = finish_line @ [newline, newline] @ content_line @ [newline, newline]"

section \<open>Properties of the response translators\<close>

lemmas sample_defs = sample_response_def sample_usage_def sample_timings_def sample_runtime_def

lemmas translate_defs = translateOpenAIToOllamaChat_def translateOpenAIToOllamaGenerate_def
  first_choice_message_def first_choice_def finished_stop_def timings_cache_n_def

lemma or_default_number [simp]: "or_default (Some (JNum n)) (JNum 0) = JNum n"
  by (simp add: or_default_def)

lemma js_plus_numbers [simp]: "js_plus rt (JNum a) (JNum b) = JNum (a + b)"
  by (simp add: js_plus_def)

subsection \<open>Token counts\<close>





lemma get_not_null: "v \<noteq> JNull \<Longrightarrow> get v k = Some (get_opt (Some v) k)"
  by (cases v) simp_all






subsection \<open>The first choice\<close>

lemma no_first_choice:
  assumes "\<not> (\<exists>choice. first_choice resp = Some (Some choice) \<and> choice \<noteq> JNull)"
  shows "first_choice_message resp = None"
    and "translateOpenAIStreamToOllamaChat rt resp = None"
proof -
  from assms consider "first_choice resp = None" | "first_choice resp = Some None"
    | "first_choice resp = Some (Some JNull)"
    by (cases "first_choice resp") auto
  then show "first_choice_message resp = None"
    by cases (simp_all add: first_choice_message_def)
  from assms consider "first_choice resp = None" | "first_choice resp = Some None"
    | "first_choice resp = Some (Some JNull)"
    by (cases "first_choice resp") auto
  then show "translateOpenAIStreamToOllamaChat rt resp = None"
    by cases (simp_all add: translateOpenAIStreamToOllamaChat_def)
qed

lemma translators_need_message:
  assumes "first_choice_message resp = None"
  shows "translateOpenAIToOllamaChat rt resp = None"
    and "translateOpenAIToOllamaGenerate rt resp = None"
  using assms
  by (auto simp: translateOpenAIToOllamaChat_def translateOpenAIToOllamaGenerate_def
      split: bind_split option.split)

lemma first_choice_missing:
  assumes "absent (get_opt (Some resp) ''choices'') \<or> get resp ''choices'' = Some (Some (JArr []))"
  shows "\<not> (\<exists>choice. first_choice resp = Some (Some choice) \<and> choice \<noteq> JNull)"
  using assms by (cases resp) (auto simp: first_choice_def absent_def split: bind_splits)

text \<open>
  Claim C10.  The three response translators read \<^verbatim>\<open>choices[0]\<close> and its members
  without a test.  On a response whose \<^verbatim>\<open>choices\<close> are missing, \<^verbatim>\<open>null\<close> or the
  empty array, each of them throws (returns \<open>None\<close>): no branch handles the case.  When
  one of them returns a reply, the response has a first choice that is not \<^verbatim>\<open>null\<close>.
\<close>

theorem first_choice_required:
  "((absent (get_opt (Some resp) ''choices'') \<or> get resp ''choices'' = Some (Some (JArr []))) \<longrightarrow>
      translateOpenAIToOllamaChat rt resp = None \<and>
      translateOpenAIToOllamaGenerate rt resp = None \<and>
      translateOpenAIStreamToOllamaChat rt resp = None)
   \<and>
   ((translateOpenAIToOllamaChat rt resp \<noteq> None \<or>
     translateOpenAIToOllamaGenerate rt resp \<noteq> None \<or>
     translateOpenAIStreamToOllamaChat rt resp \<noteq> None) \<longrightarrow>
      (\<exists>choice. first_choice resp = Some (Some choice) \<and> choice \<noteq> JNull))"
proof (intro conjI impI)
  assume "absent (get_opt (Some resp) ''choices'') \<or> get resp ''choices'' = Some (Some (JArr []))"
  then have none: "\<not> (\<exists>choice. first_choice resp = Some (Some choice) \<and> choice \<noteq> JNull)"
    by (rule first_choice_missing)
  show "translateOpenAIToOllamaChat rt resp = None"
    by (rule translators_need_message (1) [OF no_first_choice (1) [OF none]])
  show "translateOpenAIToOllamaGenerate rt resp = None"
    by (rule translators_need_message (2) [OF no_first_choice (1) [OF none]])
  show "translateOpenAIStreamToOllamaChat rt resp = None"
    by (rule no_first_choice (2) [OF none])
next
  assume some: "translateOpenAIToOllamaChat rt resp \<noteq> None \<or>
     translateOpenAIToOllamaGenerate rt resp \<noteq> None \<or>
     translateOpenAIStreamToOllamaChat rt resp \<noteq> None"
  show "\<exists>choice. first_choice resp = Some (Some choice) \<and> choice \<noteq> JNull"
  proof (rule ccontr)
    assume none: "\<not> (\<exists>choice. first_choice resp = Some (Some choice) \<and> choice \<noteq> JNull)"
    have "translateOpenAIToOllamaChat rt resp = None"
      by (rule translators_need_message (1) [OF no_first_choice (1) [OF none]])
    moreover have "translateOpenAIToOllamaGenerate rt resp = None"
      by (rule translators_need_message (2) [OF no_first_choice (1) [OF none]])
    moreover have "translateOpenAIStreamToOllamaChat rt resp = None"
      by (rule no_first_choice (2) [OF none])
    ultimately show False
      using some by simp
  qed
qed

text \<open>
  C10 on the usage chunk, which has an empty \<^verbatim>\<open>choices\<close> array, and on the sample
  response, which has one choice.
\<close>

theorem first_choice_required_witness:
  "translateOpenAIToOllamaChat sample_runtime usage_only_response = None \<and>
   translateOpenAIToOllamaGenerate sample_runtime usage_only_response = None \<and>
   translateOpenAIStreamToOllamaChat sample_runtime usage_only_response = None \<and>
   translateOpenAIToOllamaChat sample_runtime (sample_response None None) \<noteq> None \<and>
   first_choice (sample_response None None) =
     Some (Some (JObj [(''message'', JObj [(''role'', JStr ''assistant''),
                                          (''content'', JStr ''hi'')]),
                       (''finish_reason'', JStr ''stop'')]))"
  using first_choice_required [of usage_only_response sample_runtime]
    first_choice_required [of "sample_response None None" sample_runtime]
  by (simp add: usage_only_response_def translate_defs sample_defs absent_def)


section \<open>Properties of the request translator\<close>

lemmas request_defs = normalized_messages_def translateOllamaToOpenAI_def prompt_messages_def
  system_messages_def starts_with_def

lemma translate_total:
  "normalized_messages request = Some ms \<Longrightarrow>
   \<exists>q. translateOllamaToOpenAI rt request = Some q \<and> messages q = ms"
  by (simp add: translateOllamaToOpenAI_def Let_def)

text \<open>The message list of the outbound request is never empty.\<close>

lemma normalized_not_empty: "normalized_messages request = Some ms \<Longrightarrow> ms \<noteq> []"
  by (auto simp: normalized_messages_def Let_def split: bind_splits if_splits)

subsection \<open>The messages array\<close>

lemma array_messages_filter:
  "JNull \<notin> set items \<Longrightarrow>
   array_messages items = Some (map entry_message (filter kept_entry items))"
proof (induction items)
  case Nil
  then show ?case by simp
next
  case (Cons item items)
  then have "item \<noteq> JNull" by auto
  then show ?case
    using Cons
    by (auto simp: get_not_null kept_entry_def entry_message_def split: option.splits)
qed

lemma map_of_filter_other:
  "k \<noteq> a \<Longrightarrow> map_of (filter (\<lambda>(k', v). k' \<noteq> a) kvs) k = map_of kvs k"
  by (induction kvs) auto

lemma map_of_filter_same: "map_of (filter (\<lambda>(k', v). k' \<noteq> a) kvs) a = None"
  by (induction kvs) auto

lemma messages_array_kept:
  assumes "get request ''messages'' = Some (Some (JArr items))"
    and "JNull \<notin> set items"
    and "filter kept_entry items \<noteq> []"
  shows "\<exists>q. translateOllamaToOpenAI rt request = Some q \<and>
           messages q = map entry_message (filter kept_entry items)"
proof -
  have "normalized_messages request = Some (map entry_message (filter kept_entry items))"
    using assms by (simp add: normalized_messages_def array_messages_filter Let_def)
  then show ?thesis
    by (rule translate_total)
qed

lemma messages_array_dropped:
  assumes "get request ''messages'' = Some (Some (JArr items))"
    and "JNull \<notin> set items"
    and "filter kept_entry items = []"
  shows "normalized_messages request = normalized_messages (without_messages request)"
proof -
  from assms(1) obtain kvs where r: "request = JObj kvs"
    by (cases request) (auto split: if_splits)
  show ?thesis
    using assms
    by (simp add: r normalized_messages_def without_messages_def array_messages_filter
        map_of_filter_other map_of_filter_same cong: if_cong)
qed

text \<open>
  Claim C7, as stated, fails.  Both entries of this messages array have a role and a
  content, the first one the empty string as content: the filter of the claim keeps
  both, the program keeps the second one only.  An entry with a third field is kept
  without it.  A \<^verbatim>\<open>null\<close> entry makes the translation throw.
\<close>

theorem messages_array_counterexample:
  "normalized_messages chat_request = Some [\<lparr>role = JStr ''user'', content = JStr ''hi''\<rparr>] \<and>
   map entry_message (filter present_entry
       [JObj [(''role'', JStr ''assistant''), (''content'', JStr [])],
        JObj [(''role'', JStr ''user''), (''content'', JStr ''hi'')]])
     = [\<lparr>role = JStr ''assistant'', content = JStr []\<rparr>,
        \<lparr>role = JStr ''user'', content = JStr ''hi''\<rparr>] \<and>
   map_option (map message_json)
     (normalized_messages
        (JObj [(''messages'', JArr [JObj [(''role'', JStr ''user''), (''content'', JStr ''hi''),
                                         (''name'', JStr ''ann'')]])]))
     = Some [JObj [(''role'', JStr ''user''), (''content'', JStr ''hi'')]] \<and>
   normalized_messages (JObj [(''messages'', JArr [JNull])]) = None"
  by (simp add: chat_request_def request_defs present_entry_def entry_message_def
      message_json_def)

text \<open>
  Claim C7, amended.  Let the request have a messages array without a \<^verbatim>\<open>null\<close> entry.
  The entries kept are those whose role and whose content are both truthy.  If one is
  kept, the messages of the outbound request are the kept entries in their order, each
  with its role and its content unchanged and nothing else.  If none is kept, the
  messages are those of the request without its messages array.
\<close>

theorem messages_array_normalized:
  assumes "get request ''messages'' = Some (Some (JArr items))"
    and "JNull \<notin> set items"
  shows "(filter kept_entry items \<noteq> [] \<longrightarrow>
            (\<exists>q. translateOllamaToOpenAI rt request = Some q \<and>
                 messages q = map entry_message (filter kept_entry items))) \<and>
         (filter kept_entry items = [] \<longrightarrow>
            normalized_messages request = normalized_messages (without_messages request))"
  using messages_array_kept [OF assms] messages_array_dropped [OF assms]
  by blast

text \<open>
  C7 on the array of the counterexample, and on a request whose only entry has an empty
  role, so that its prompt supplies the message.
\<close>

theorem messages_array_normalized_witness:
  "map_option messages (translateOllamaToOpenAI sample_runtime chat_request)
     = Some [\<lparr>role = JStr ''user'', content = JStr ''hi''\<rparr>] \<and>
   normalized_messages
     (JObj [(''messages'', JArr [JObj [(''role'', JStr []), (''content'', JStr ''x'')]]),
            (''prompt'', JStr ''hi'')])
     = Some [\<lparr>role = JStr ''user'', content = JStr ''hi''\<rparr>]"
  using messages_array_normalized [of chat_request
      "[JObj [(''role'', JStr ''assistant''), (''content'', JStr [])],
        JObj [(''role'', JStr ''user''), (''content'', JStr ''hi'')]]" sample_runtime]
    messages_array_normalized [of
      "JObj [(''messages'', JArr [JObj [(''role'', JStr []), (''content'', JStr ''x'')]]),
             (''prompt'', JStr ''hi'')]"
      "[JObj [(''role'', JStr []), (''content'', JStr ''x'')]]" sample_runtime]
  by (auto simp: chat_request_def kept_entry_def entry_message_def without_messages_def
      request_defs)

subsection \<open>The generation options\<close>

text \<open>
  Claim C8, as stated, fails.  With the options \<^verbatim>\<open>repeat_penalty: 0\<close>,
  \<^verbatim>\<open>presence_penalty: 0\<close> and \<^verbatim>\<open>temperature: 0\<close>, the outbound request has no
  \<^verbatim>\<open>frequency_penalty\<close> (the claim gives \<open>-1\<close>) and no \<^verbatim>\<open>presence_penalty\<close> (the
  claim keeps the zero); the zero temperature is kept.
\<close>

theorem generation_options_counterexample:
  "map_option frequency_penalty (translateOllamaToOpenAI sample_runtime (penalty_request 0))
     = Some None \<and>
   map_option presence_penalty (translateOllamaToOpenAI sample_runtime (penalty_request 0))
     = Some None \<and>
   map_option temperature (translateOllamaToOpenAI sample_runtime (penalty_request 0))
     = Some (Some (JNum 0))"
  by (simp add: penalty_request_def request_defs frequency_penalty_of_def or_undefined_def)

text \<open>
  Claim C8, amended.  In the outbound request, \<^verbatim>\<open>frequency_penalty\<close> is the repeat
  penalty minus 1 when that option is a number other than zero, and is left out when
  the option is missing or zero.  \<^verbatim>\<open>temperature\<close>, \<^verbatim>\<open>max_tokens\<close> and \<^verbatim>\<open>top_p\<close>
  are the options as they are: left out when missing, a zero kept.
  \<^verbatim>\<open>presence_penalty\<close>, \<^verbatim>\<open>tool_choice\<close> and \<^verbatim>\<open>response_format\<close> are the options when
  truthy, and left out when missing or falsy: a zero presence penalty is left out.
\<close>

theorem generation_options:
  assumes "translateOllamaToOpenAI rt request = Some q"
    and "options = get_opt (Some request) ''options''"
  shows
    "(get_opt options ''repeat_penalty'' = Some (JNum x) \<and> x \<noteq> 0 \<longrightarrow>
        frequency_penalty q = Some (JNum (x - 1))) \<and>
     (get_opt options ''repeat_penalty'' = None \<or>
      get_opt options ''repeat_penalty'' = Some (JNum 0) \<longrightarrow>
        frequency_penalty q = None) \<and>
     temperature q = get_opt options ''temperature'' \<and>
     max_tokens q = get_opt options ''num_predict'' \<and>
     top_p q = get_opt options ''top_p'' \<and>
     presence_penalty q = (if truthyv (get_opt options ''presence_penalty'')
                            then get_opt options ''presence_penalty'' else None) \<and>
     tool_choice q = (if truthyv (get_opt options ''tool_choice'')
                       then get_opt options ''tool_choice'' else None) \<and>
     response_format q = (if truthyv (get_opt options ''response_format'')
                           then get_opt options ''response_format'' else None)"
  using assms
  by (auto simp: translateOllamaToOpenAI_def Let_def frequency_penalty_of_def js_minus_one_def
      number_of_def or_undefined_def split: bind_splits)

text \<open>C8 on a repeat penalty of 11/10, and on a request without options.\<close>

theorem generation_options_witness:
  "map_option frequency_penalty (translateOllamaToOpenAI sample_runtime (penalty_request (11 / 10)))
     = Some (Some (JNum (1 / 10))) \<and>
   map_option temperature (translateOllamaToOpenAI sample_runtime (penalty_request (11 / 10)))
     = Some (Some (JNum 0)) \<and>
   map_option frequency_penalty (translateOllamaToOpenAI sample_runtime prompt_request)
     = Some None \<and>
   map_option temperature (translateOllamaToOpenAI sample_runtime prompt_request) = Some None"
proof -
  obtain q1 where q1: "translateOllamaToOpenAI sample_runtime (penalty_request (11 / 10)) = Some q1"
    by (simp add: penalty_request_def request_defs)
  obtain q2 where q2: "translateOllamaToOpenAI sample_runtime prompt_request = Some q2"
    by (simp add: prompt_request_def request_defs)
  have "frequency_penalty q1 = Some (JNum (1 / 10)) \<and> temperature q1 = Some (JNum 0)"
    using generation_options [OF q1 refl, of "11 / 10"]
    by (simp add: penalty_request_def)
  moreover have "frequency_penalty q2 = None \<and> temperature q2 = None"
    using generation_options [OF q2 refl]
    by (simp add: prompt_request_def)
  ultimately show ?thesis
    using q1 q2 by simp
qed

subsection \<open>The tagged prompt\<close>


lemma split_nl_not_Nil [simp]: "split_nl s \<noteq> []"
  by (induction s) (auto split: list.splits)



















lemma starts_with_append [simp]: "starts_with p (p @ s)"
  by (simp add: starts_with_def)













section \<open>Properties of the endpoints\<close>

subsection \<open>The choice of the mode\<close>

text \<open>
  Claim C4, as stated, fails.  This request asks for a stream and gives a prompt: its
  normalised message list is not empty, and the chat endpoint does not stream.
\<close>

theorem streaming_choice_counterexample:
  "isStreaming prompt_stream_request None = Some False \<and>
   truthyv (get_opt (Some prompt_stream_request) ''stream'') \<and>
   normalized_messages prompt_stream_request
     = Some [\<lparr>role = JStr ''user'', content = JStr ''hi''\<rparr>]"
  by (simp add: prompt_stream_request_def isStreaming_def request_defs)

text \<open>
  Claim C4, amended.  The chat endpoint streams if and only if the request asks for a
  stream or the \<^verbatim>\<open>Accept\<close> header contains \<^verbatim>\<open>text/event-stream\<close>, and the
  \<^verbatim>\<open>messages\<close> field of the request itself is truthy and its length is not 0.  For a
  messages array that is: a non-empty array, whatever its entries are; a request
  without messages is never streamed.
\<close>

theorem streaming_choice:
  assumes "get req ''stream'' = Some s"
    and "ms = get_opt (Some req) ''messages''"
    and "wanted = (truthyv s \<or>
           includes (case accept of Some a \<Rightarrow> a | None \<Rightarrow> []) ''text/event-stream'')"
  shows "isStreaming req accept
           = Some (wanted \<and> truthyv ms \<and> get_opt ms ''length'' \<noteq> Some (JNum 0)) \<and>
         (ms = Some (JArr items) \<longrightarrow> isStreaming req accept = Some (wanted \<and> items \<noteq> [])) \<and>
         (absent ms \<longrightarrow> isStreaming req accept = Some False)"
  using assms
  by (auto simp: isStreaming_def Let_def absent_def)

text \<open>
  C4 on a request with two messages, on a request with an empty messages array, and on
  a request without messages that is sent with the header.
\<close>

theorem streaming_choice_witness:
  "isStreaming chat_request None = Some True \<and>
   isStreaming (JObj [(''messages'', JArr []), (''stream'', JBool True)]) None = Some False \<and>
   isStreaming prompt_request (Some ''text/event-stream'') = Some False"
  using streaming_choice [of chat_request "Some (JBool True)" _ _ None
      "[JObj [(''role'', JStr ''assistant''), (''content'', JStr [])],
        JObj [(''role'', JStr ''user''), (''content'', JStr ''hi'')]]"]
    streaming_choice [of "JObj [(''messages'', JArr []), (''stream'', JBool True)]"
      "Some (JBool True)" _ _ None "[]"]
    streaming_choice [of prompt_request None _ _ "Some ''text/event-stream''"]
  by (simp add: chat_request_def prompt_request_def absent_def)

subsection \<open>An upstream status outside 2xx\<close>

text \<open>
  Claim C6, as stated, fails.  The upstream answers 401 with an error body; the reply
  has the status 401, and its body is not the upstream body but an object that holds it.
\<close>

theorem upstream_status_counterexample:
  "api_generate sample_runtime unauthorized_client prompt_request
     = Reply 401 (Error_body (Some unauthorized_body)) \<and>
   body_json (Error_body (Some unauthorized_body)) \<noteq> unauthorized_body"
  by (simp add: api_generate_def unauthorized_client_def unauthorized_def prompt_request_def
      request_defs caught_def object_of_def unauthorized_body_def)

text \<open>
  Claim C6, amended.  When the request is translated and the upstream call is rejected
  with a response of some status and body, the generate endpoint, and the chat endpoint
  when it does not stream, reply with that status and with the object
  \<^verbatim>\<open>{error: body}\<close>, whose member is the upstream body unchanged.
\<close>

theorem upstream_status_propagated:
  assumes "translateOllamaToOpenAI rt req = Some q"
    and "post cl q = Inl err"
    and "error_response err = Some (status, Some data)"
  shows "api_generate rt cl req = Reply status (Error_body (Some data)) \<and>
         (isStreaming req accept = Some False \<longrightarrow>
            api_chat rt cl req accept = Reply status (Error_body (Some data))) \<and>
         body_json (Error_body (Some data)) = JObj [(''error'', data)]"
  using assms
  by (auto simp: api_generate_def api_chat_def caught_def object_of_def)

text \<open>C6 on the upstream that answers 401.\<close>

theorem upstream_status_propagated_witness:
  "api_generate sample_runtime unauthorized_client prompt_request
     = Reply 401 (Error_body (Some unauthorized_body)) \<and>
   api_chat sample_runtime unauthorized_client prompt_request None
     = Reply 401 (Error_body (Some unauthorized_body)) \<and>
   body_json (Error_body (Some unauthorized_body)) = JObj [(''error'', unauthorized_body)]"
proof -
  obtain q where q: "translateOllamaToOpenAI sample_runtime prompt_request = Some q"
    by (simp add: prompt_request_def request_defs)
  have p: "post unauthorized_client q = Inl unauthorized"
    by (simp add: unauthorized_client_def)
  have e: "error_response unauthorized = Some (401, Some unauthorized_body)"
    by (simp add: unauthorized_def)
  have s: "isStreaming prompt_request None = Some False"
    by (simp add: isStreaming_def prompt_request_def)
  show ?thesis
    using upstream_status_propagated [OF q p e, of None] s by simp
qed


section \<open>Properties of the streaming exchange\<close>

text \<open>
  Once \<^verbatim>\<open>streamEnded\<close> is set, every later event leaves the session as it is.
\<close>

lemma terminated_ignores_events: "streamEnded st \<Longrightarrow> handle rt st ev = st"
  by (cases ev) (simp_all add: handle_def on_data_def on_end_def on_close_def on_error_def)

lemma terminated_ignores_all: "streamEnded st \<Longrightarrow> foldl (handle rt) st events = st"
  by (induction events) (simp_all add: terminated_ignores_events)

text \<open>The two outcomes of the statements that write the marker and flush.\<close>

lemma finish_flush_returns:
  "res_has_flush rt \<Longrightarrow>
   finish_flush rt st = Inr (st\<lparr>res := res st @ [Write Marker, Flush, End], streamEnded := True\<rparr>)"
  by (simp add: finish_flush_def res_flush_def res_write_def res_end_def)

lemma finish_flush_throws:
  "\<not> res_has_flush rt \<Longrightarrow> finish_flush rt st = Inl (st\<lparr>res := res st @ [Write Marker]\<rparr>)"
  by (simp add: finish_flush_def res_flush_def res_write_def)

text \<open>
  In the data handler, a delta with a finish reason writes its final frame and then the
  marker, and \<^verbatim>\<open>streamEnded\<close> is set.  With \<^verbatim>\<open>res.flush\<close> the response is ended
  then; without it the \<^verbatim>\<open>catch\<close> block writes an error object and the marker a
  second time before it ends the response.
\<close>

lemma done_delta_terminates:
  assumes "done ollamaData" and "res_has_flush rt"
  shows "\<exists>before. res (emit_delta rt st ollamaData)
            = res st @ before @ [Write (Frame (final_chunk ollamaData)), Write Marker, Flush, End]"
    and "streamEnded (emit_delta rt st ollamaData)"
    and "done (final_chunk ollamaData)"
  using assms
  by (auto simp: emit_delta_def Let_def finish_flush_returns res_write_def final_chunk_def)

lemma done_delta_without_flush:
  assumes "done ollamaData" and "\<not> res_has_flush rt"
  shows "\<exists>before. res (emit_delta rt st ollamaData)
            = res st @ before @
              [Write (Frame (final_chunk ollamaData)), Write Marker,
               Write (Error_frame (Some (error_object ''Error parsing response'' ''parse_error''))),
               Write Marker, End]"
    and "streamEnded (emit_delta rt st ollamaData)"
  using assms
  by (auto simp: emit_delta_def Let_def finish_flush_throws parse_failure_def res_write_def
      res_end_def)

text \<open>
  On the first delta the data handler writes the opening frame before anything else.
\<close>

lemma opening_frame_first:
  assumes "firstChunk st"
  shows "\<exists>later. res (emit_delta rt st ollamaData)
            = res st @ Write (Frame (firstChunkData ollamaData)) # later"
    and "\<not> firstChunk (emit_delta rt st ollamaData)"
  using assms
  by (auto simp: emit_delta_def Let_def finish_flush_def res_flush_def parse_failure_def
      res_write_def res_end_def)

subsection \<open>The marker before the end of the response\<close>

text \<open>
  With a response object that has \<^verbatim>\<open>flush\<close>, every handler keeps a session in order,
  whatever the chunks are and however the other built-ins behave: no exception leaves a
  handler, up to the first \<^verbatim>\<open>res.end()\<close> the marker is written at most once, and it is
  the last line written when the session has ended.
\<close>

lemma writes_append: "writes (a @ b) = writes a @ writes b"
  by (induction a rule: writes.induct) simp_all

lemma delivered_append:
  "delivered (a @ b) = (if End \<in> set a then delivered a else a @ delivered b)"
  by (auto simp: delivered_def takeWhile_append)

lemma delivered_simps [simp]:
  "delivered [] = []" "delivered (End # ops) = []" "delivered (Flush # ops) = Flush # delivered ops"
  "delivered (Write w # ops) = Write w # delivered ops"
  by (simp_all add: delivered_def)

lemma ok_write:
  "session_ok st \<Longrightarrow> w \<noteq> Marker \<or> streamEnded st \<Longrightarrow> session_ok (res_write w st)"
  by (auto simp: session_ok_def res_write_def writes_append delivered_append)

lemma ok_first [simp]: "session_ok (st\<lparr>firstChunk := b\<rparr>) = session_ok st"
  by (simp add: session_ok_def)

lemma ok_buffer [simp]: "session_ok (st\<lparr>responseBuffer := b\<rparr>) = session_ok st"
  by (simp add: session_ok_def)

lemma ok_finish:
  "session_ok st \<Longrightarrow> session_ok ((res_end (res_write Marker st))\<lparr>streamEnded := True\<rparr>)"
  by (cases "streamEnded st")
    (auto simp: session_ok_def res_write_def res_end_def writes_append delivered_append
      marker_last_def)

lemma ok_finish_flush:
  "res_has_flush rt \<Longrightarrow> session_ok st \<Longrightarrow>
   session_ok (case finish_flush rt st of Inl thrown \<Rightarrow> f thrown | Inr ended \<Rightarrow> ended)"
  by (cases "streamEnded st")
    (auto simp: finish_flush_returns session_ok_def writes_append delivered_append
      marker_last_def)

lemma ok_parse_failure: "session_ok st \<Longrightarrow> session_ok (parse_failure st)"
  unfolding parse_failure_def by (intro ok_finish ok_write) simp_all

lemma ok_end_failure: "res_has_flush rt \<Longrightarrow> session_ok st \<Longrightarrow> session_ok (end_failure rt st)"
  unfolding end_failure_def by (intro ok_finish_flush ok_write) simp_all

lemma ok_emit_delta: "res_has_flush rt \<Longrightarrow> session_ok st \<Longrightarrow> session_ok (emit_delta rt st d)"
  by (simp add: emit_delta_def Let_def ok_finish_flush ok_write)

lemma ok_data_lines:
  "res_has_flush rt \<Longrightarrow> session_ok st \<Longrightarrow> session_ok (data_lines rt st lines)"
proof (induction lines arbitrary: st)
  case Nil
  then show ?case by simp
next
  case (Cons line lines)
  then show ?case
    by (auto simp: Let_def ok_finish_flush ok_finish ok_write ok_parse_failure ok_emit_delta
        split: option.splits)
qed

lemma ok_on_data: "res_has_flush rt \<Longrightarrow> session_ok st \<Longrightarrow> session_ok (on_data rt st chunk)"
  by (simp add: on_data_def Let_def ok_data_lines)

lemma ok_end_lines:
  "res_has_flush rt \<Longrightarrow> session_ok st \<Longrightarrow> session_ok (end_lines rt st lines)"
proof (induction lines arbitrary: st)
  case Nil
  then show ?case by simp
next
  case (Cons line lines)
  have f: "\<And>s. session_ok s \<Longrightarrow> finish_flush rt s
      = Inr (s\<lparr>res := res s @ [Write Marker, Flush, End], streamEnded := True\<rparr>)"
    using Cons.prems(1) by (simp add: finish_flush_returns)
  have g: "\<And>s. session_ok s \<Longrightarrow>
      session_ok (s\<lparr>res := res s @ [Write Marker, Flush, End], streamEnded := True\<rparr>)"
    using ok_finish_flush [OF Cons.prems(1)] Cons.prems(1) by (simp add: finish_flush_returns)
  show ?case
    using Cons
    by (auto simp: Let_def f g ok_write ok_end_failure split: option.splits)
qed

lemma ok_on_end: "res_has_flush rt \<Longrightarrow> session_ok st \<Longrightarrow> session_ok (on_end rt st)"
  by (simp add: on_end_def Let_def ok_end_lines ok_finish_flush)

lemma ok_on_close: "session_ok st \<Longrightarrow> session_ok (on_close st)"
  by (simp add: on_close_def ok_finish)

lemma ok_on_error: "session_ok st \<Longrightarrow> session_ok (on_error st msg)"
  by (simp add: on_error_def ok_finish ok_write)

lemma ok_handle: "res_has_flush rt \<Longrightarrow> session_ok st \<Longrightarrow> session_ok (handle rt st ev)"
  by (cases ev) (simp_all add: handle_def ok_on_data ok_on_end ok_on_close ok_on_error)

lemma ok_events:
  "res_has_flush rt \<Longrightarrow> session_ok st \<Longrightarrow> session_ok (foldl (handle rt) st events)"
  by (induction events arbitrary: st) (simp_all add: ok_handle)

lemma ok_run_session: "res_has_flush rt \<Longrightarrow> session_ok (run_session rt events)"
  unfolding run_session_def by (rule ok_events) (simp_all add: session_ok_def new_session_def)

text \<open>The end of the stream, its closing and its failure set \<^verbatim>\<open>streamEnded\<close> then.\<close>

lemma closing_events_terminate:
  assumes "res_has_flush rt" and "session_ok st"
    and "ev = End_of_stream \<or> ev = Close \<or> ev = Error msg"
  shows "streamEnded (handle rt st ev)"
proof -
  have nu: "\<not> uncaught st"
    using assms(2) by (simp add: session_ok_def)
  have "\<not> uncaught (end_lines rt st lines)" for lines
    using ok_end_lines [OF assms(1,2)] by (simp add: session_ok_def)
  then show ?thesis
    using assms(1,3) nu
    by (auto simp: handle_def on_end_def on_close_def on_error_def Let_def finish_flush_returns
        res_write_def res_end_def)
qed

lemma ended_stays: "streamEnded st \<Longrightarrow> streamEnded (foldl (handle rt) st events)"
  by (simp add: terminated_ignores_all)

lemma finished_session_delivers_marker:
  assumes "res_has_flush rt"
    and "ev \<in> set events" and "ev = End_of_stream \<or> ev = Close \<or> ev = Error msg"
  shows "streamEnded (run_session rt events)"
    and "marker_last (writes (delivered (res (run_session rt events))))"
proof -
  from assms(2) obtain before later where e: "events = before @ ev # later"
    by (auto simp: in_set_conv_decomp)
  have "session_ok (foldl (handle rt) new_session before)"
    using ok_run_session [OF assms(1), of before] by (simp add: run_session_def)
  then have "streamEnded (handle rt (foldl (handle rt) new_session before) ev)"
    using assms(1,3) by (intro closing_events_terminate) auto
  then show ended: "streamEnded (run_session rt events)"
    by (simp add: run_session_def e ended_stays)
  show "marker_last (writes (delivered (res (run_session rt events))))"
    using ok_run_session [OF assms(1), of events] ended by (simp add: session_ok_def)
qed

subsection \<open>The claims on the code\<close>

text \<open>
  Claim C1 on the code.  One chunk holds the finishing delta and the usage record.  The
  data handler writes the final frame and the marker and ends the response, goes on with
  the next line, fails to translate the usage record, and writes an error object and
  the marker a second time: the session writes the marker twice, and a frame after the
  first one.  That is so when the response object has \<^verbatim>\<open>flush\<close>.  On the response
  object of the program as it is, \<^verbatim>\<open>res.flush()\<close> throws after the first marker and
  the \<^verbatim>\<open>catch\<close> block writes one more error object and marker before the response is
  ended: the session writes the marker three times.
\<close>

theorem terminal_marker_twice:
  "map is_marker
     (writes (res (run_session sample_runtime [Data two_records_chunk, End_of_stream, Close])))
     = [False, False, True, False, True] \<and>
   marker_count (res (run_session sample_runtime [Data two_records_chunk, End_of_stream, Close]))
     = 2 \<and>
   map is_marker
     (writes (res (run_session plain_runtime [Data two_records_chunk, End_of_stream, Close])))
     = [False, False, True, False, True, False, True] \<and>
   marker_count (res (run_session plain_runtime [Data two_records_chunk, End_of_stream, Close]))
     = 3"
  by code_simp

text \<open>
  Claim C2 on the code.  The only delta arrives without a line feed after it, so that
  the end handler processes it: the session writes the content frame and the marker, and
  no opening frame.  With the line feed, the data handler writes the opening frame first.
  The writes are the same with and without \<^verbatim>\<open>flush\<close> on the response object:
  without it, \<^verbatim>\<open>res.flush()\<close> throws after the marker is written.
\<close>

theorem opening_frame_missing:
  "map is_opening_frame
     (writes (res (run_session sample_runtime [Data content_line, End_of_stream, Close])))
     = [False, False] \<and>
   map is_content_frame
     (writes (res (run_session sample_runtime [Data content_line, End_of_stream, Close])))
     = [True, False] \<and>
   map is_opening_frame
     (writes (res (run_session sample_runtime
        [Data (content_line @ [newline]), End_of_stream, Close])))
     = [True, False, False] \<and>
   map is_opening_frame
     (writes (res (run_session plain_runtime [Data content_line, End_of_stream, Close])))
     = [False, False] \<and>
   map is_content_frame
     (writes (res (run_session plain_runtime [Data content_line, End_of_stream, Close])))
     = [True, False] \<and>
   map is_opening_frame
     (writes (res (run_session plain_runtime
        [Data (content_line @ [newline]), End_of_stream, Close])))
     = [True, False, False]"
  by code_simp

text \<open>
  Claim C3 on the code.  One chunk holds the finishing delta and a delta with content.
  The final frame is followed by the marker and \<^verbatim>\<open>streamEnded\<close> is set, but the second
  delta is not ignored: its content frame is written after the marker.  Without
  \<^verbatim>\<open>flush\<close> on the response object, an error object and a second marker are written
  between the first marker and that frame.
\<close>

theorem input_after_final_frame:
  "map is_final_frame (writes (res (run_session sample_runtime [Data late_delta_chunk])))
     = [False, True, False, False] \<and>
   map is_marker (writes (res (run_session sample_runtime [Data late_delta_chunk])))
     = [False, False, True, False] \<and>
   map is_content_frame (writes (res (run_session sample_runtime [Data late_delta_chunk])))
     = [False, False, False, True] \<and>
   streamEnded (run_session sample_runtime [Data late_delta_chunk]) \<and>
   map is_final_frame (writes (res (run_session plain_runtime [Data late_delta_chunk])))
     = [False, True, False, False, False, False] \<and>
   map is_marker (writes (res (run_session plain_runtime [Data late_delta_chunk])))
     = [False, False, True, False, True, False] \<and>
   map is_content_frame (writes (res (run_session plain_runtime [Data late_delta_chunk])))
     = [False, False, False, False, False, True] \<and>
   streamEnded (run_session plain_runtime [Data late_delta_chunk])"
  by code_simp

end
